theory Spec2Isabelle
  imports Main "HOL-Library.Char_ord" "HOL-Library.List_Lexorder" "HOL-Library.Multiset"
begin

section \<open>Metadata calculators (metacalc.py)\<close>

subsection \<open>Data packets and explicit reactions\<close>

text \<open>
  Modelled from the spec: \<open>interfaces.DataPacketE\<close> and \<open>interfaces.ReactionExplicit\<close>
  are declared outside the two source files. A data packet pairs a data unit with its
  metadata snapshot; \<open>meta\<close> is \<open>None\<close> or a mapping from metadata keys to values. An
  explicit reaction carries its operator packet and the tuples of reactant and product
  packets. Python's \<open>data in rxn.reactants\<close> compares packets by value, which is HOL
  equality on the record.
\<close>

record ('u, 'k) DataPacketE =
  item :: 'u
  meta :: "('k \<rightharpoonup> int) option"

record ('o, 'u, 'k) ReactionExplicit =
  operator :: "('o, 'k) DataPacketE"
  reactants :: "('u, 'k) DataPacketE list"
  products :: "('u, 'k) DataPacketE list"

subsection \<open>GenerationCalculator\<close>

record 'k GenerationCalculator =
  gen_key :: 'k

definition key :: "'k GenerationCalculator \<Rightarrow> 'k" where
  "key self = gen_key self"

definition resolver :: "'k GenerationCalculator \<Rightarrow> int \<Rightarrow> int \<Rightarrow> int" where
  "resolver self = min"

text \<open>
  The \<open>for reactant in rxn.reactants\<close> loop of \<open>__call__\<close>. It leaves either through the
  \<open>return None\<close> in its body or by exhausting the reactants with the current value of
  \<open>cur_gen\<close>.
\<close>

datatype loop_exit = Return_None | Loop_done "int option"

fun reactant_loop ::
  "'k GenerationCalculator \<Rightarrow> ('u, 'k) DataPacketE list \<Rightarrow> int option \<Rightarrow> loop_exit" where
  "reactant_loop self [] cur_gen = Loop_done cur_gen"
| "reactant_loop self (reactant # rest) cur_gen =
     (case meta reactant of
        None \<Rightarrow> Return_None
      | Some m \<Rightarrow>
          (case m (gen_key self) of
             None \<Rightarrow> Return_None
           | Some g \<Rightarrow>
               (let cur_gen1 = (case cur_gen of None \<Rightarrow> g + 1 | Some c \<Rightarrow> c)
                in reactant_loop self rest (Some (max cur_gen1 (g + 1))))))"

definition GenerationCalculator_call ::
  "'k GenerationCalculator \<Rightarrow> ('u, 'k) DataPacketE \<Rightarrow> ('o, 'u, 'k) ReactionExplicit \<Rightarrow>
     int option \<Rightarrow> int option" where
  "GenerationCalculator_call self data rxn prev_value =
     (if data \<in> set (reactants rxn) then None
      else
        (case reactant_loop self (reactants rxn) None of
           Return_None \<Rightarrow> None
         | Loop_done None \<Rightarrow> None
         | Loop_done (Some cur_gen) \<Rightarrow>
             if (case prev_value of None \<Rightarrow> False | Some p \<Rightarrow> p < cur_gen) then None
             else if (case meta data of
                        None \<Rightarrow> False
                      | Some m \<Rightarrow> (case m (gen_key self) of None \<Rightarrow> False | Some d \<Rightarrow> d \<le> cur_gen))
             then None
             else Some cur_gen))"

text \<open>
  The value a packet carries under a key: \<open>d.meta[k]\<close> when \<open>d.meta\<close> is not \<open>None\<close> and
  holds \<open>k\<close>. Used to state the properties below.
\<close>

definition carried :: "'k \<Rightarrow> ('u, 'k) DataPacketE \<Rightarrow> int option" where
  "carried k d = (case meta d of None \<Rightarrow> None | Some m \<Rightarrow> m k)"

section \<open>Data units (datatypes.py)\<close>

subsection \<open>Exceptions\<close>

text \<open>
  Every \<open>raise\<close> of the source is a value of \<open>exn\<close>, returned as \<open>Inl\<close>.
  \<open>AtomValenceException\<close> and \<open>KekulizeException\<close> are the two chemistry-engine exceptions
  that \<open>OpDatBasic.__call__\<close> names; \<open>OtherException\<close> stands for an exception of any other
  type, given by the name of its type.
\<close>

datatype exn =
    UnpicklingError string
  | TypeError string
  | ValueError string
  | IndexError string
  | NotImplementedError string
  | AtomValenceException
  | KekulizeException
  | OtherException string

text \<open>The first failure of a left-to-right traversal, as a comprehension raises it.\<close>

fun collect :: "('a \<Rightarrow> exn + 'b) \<Rightarrow> 'a list \<Rightarrow> exn + 'b list" where
  "collect f [] = Inr []"
| "collect f (x # xs) =
     (case f x of
        Inl e \<Rightarrow> Inl e
      | Inr y \<Rightarrow> (case collect f xs of Inl e \<Rightarrow> Inl e | Inr ys \<Rightarrow> Inr (y # ys)))"

subsection \<open>Python values and pickle payloads\<close>

text \<open>
  The values that pass through \<open>pickle\<close> in this program: identifiers (\<open>'i\<close>, canonical
  strings), booleans, tuples, frozensets (their elements in iteration order), class
  objects (module and name), the chemistry engine's reaction templates (\<open>'t\<close>) and the
  binary string a template is rebuilt from.

  A \<open>bytes\<close> payload is represented by the pickle program it encodes: primitive values,
  tuple and frozenset builders, constructor references (the \<open>GLOBAL\<close> instruction with a
  module and a name) and calls (\<open>REDUCE\<close>: a callable applied to an argument tuple).
  The standard \<open>Unpickler.load\<close> asks its \<open>find_class\<close> method for every constructor
  reference it meets and lets the exceptions of \<open>find_class\<close> escape; \<open>Unpickler_load\<close>
  takes that method as its first argument.
\<close>

datatype ('i, 't) pyval =
    PyIdent 'i
  | PyBool bool
  | PyBinary 't
  | PyReaction 't
  | PyClass string string
  | PyTuple "('i, 't) pyval list"
  | PyFrozenset "('i, 't) pyval list"

datatype ('i, 't) pickle =
    P_ident 'i
  | P_bool bool
  | P_binary 't
  | P_tuple "('i, 't) pickle list"
  | P_frozenset "('i, 't) pickle list"
  | P_global string string
  | P_reduce "('i, 't) pickle" "('i, 't) pickle"

fun py_iter :: "('i, 't) pyval \<Rightarrow> exn + ('i, 't) pyval list" where
  "py_iter (PyTuple xs) = Inr xs"
| "py_iter (PyFrozenset xs) = Inr xs"
| "py_iter _ = Inl (TypeError ''object is not iterable'')"

text \<open>
  Calling a class object on an argument tuple. Only \<open>builtins.tuple\<close> and
  \<open>builtins.frozenset\<close> are modelled: the safe unpickler below returns no other class.
\<close>

fun py_call :: "('i, 't) pyval \<Rightarrow> ('i, 't) pyval \<Rightarrow> exn + ('i, 't) pyval" where
  "py_call (PyClass module name) (PyTuple args) =
     (if module = ''builtins'' \<and> name = ''tuple'' then
        (case args of
           [] \<Rightarrow> Inr (PyTuple [])
         | [x] \<Rightarrow> (case py_iter x of Inl e \<Rightarrow> Inl e | Inr xs \<Rightarrow> Inr (PyTuple xs))
         | _ \<Rightarrow> Inl (TypeError ''tuple expected at most 1 argument''))
      else if module = ''builtins'' \<and> name = ''frozenset'' then
        (case args of
           [] \<Rightarrow> Inr (PyFrozenset [])
         | [x] \<Rightarrow> (case py_iter x of Inl e \<Rightarrow> Inl e | Inr xs \<Rightarrow> Inr (PyFrozenset (remdups xs)))
         | _ \<Rightarrow> Inl (TypeError ''frozenset expected at most 1 argument''))
      else Inl (TypeError ''class is not modelled''))"
| "py_call (PyClass module name) _ = Inl (TypeError ''argument list must be a tuple'')"
| "py_call _ _ = Inl (TypeError ''object is not callable'')"

fun Unpickler_load ::
    "(string \<Rightarrow> string \<Rightarrow> exn + ('i, 't) pyval) \<Rightarrow> ('i, 't) pickle \<Rightarrow> exn + ('i, 't) pyval"
  and load_items ::
    "(string \<Rightarrow> string \<Rightarrow> exn + ('i, 't) pyval) \<Rightarrow> ('i, 't) pickle list \<Rightarrow>
       exn + ('i, 't) pyval list" where
  "Unpickler_load fc (P_ident i) = Inr (PyIdent i)"
| "Unpickler_load fc (P_bool b) = Inr (PyBool b)"
| "Unpickler_load fc (P_binary t) = Inr (PyBinary t)"
| "Unpickler_load fc (P_tuple ps) =
     (case load_items fc ps of Inl e \<Rightarrow> Inl e | Inr vs \<Rightarrow> Inr (PyTuple vs))"
| "Unpickler_load fc (P_frozenset ps) =
     (case load_items fc ps of Inl e \<Rightarrow> Inl e | Inr vs \<Rightarrow> Inr (PyFrozenset (remdups vs)))"
| "Unpickler_load fc (P_global module name) = fc module name"
| "Unpickler_load fc (P_reduce f a) =
     (case Unpickler_load fc f of
        Inl e \<Rightarrow> Inl e
      | Inr callable \<Rightarrow>
          (case Unpickler_load fc a of Inl e \<Rightarrow> Inl e | Inr args \<Rightarrow> py_call callable args))"
| "load_items fc [] = Inr []"
| "load_items fc (p # ps) =
     (case Unpickler_load fc p of
        Inl e \<Rightarrow> Inl e
      | Inr v \<Rightarrow> (case load_items fc ps of Inl e \<Rightarrow> Inl e | Inr vs \<Rightarrow> Inr (v # vs)))"

text \<open>
  \<open>pickle.dumps\<close>. Strings, booleans, tuples and frozensets have instructions of their
  own. An instance of any other class is written as a reference to its class followed
  by the constructor arguments; for a reaction template that class is
  \<open>rdkit.Chem.rdChemReactions.ChemicalReaction\<close> and the argument its binary string.
\<close>

fun dumps :: "('i, 't) pyval \<Rightarrow> ('i, 't) pickle" where
  "dumps (PyIdent i) = P_ident i"
| "dumps (PyBool b) = P_bool b"
| "dumps (PyBinary t) = P_binary t"
| "dumps (PyReaction t) =
     P_reduce (P_global ''rdkit.Chem.rdChemReactions'' ''ChemicalReaction'')
       (P_tuple [P_binary t])"
| "dumps (PyClass module name) = P_global module name"
| "dumps (PyTuple xs) = P_tuple (map dumps xs)"
| "dumps (PyFrozenset xs) = P_frozenset (map dumps xs)"




subsection \<open>The safe unpickler\<close>

definition safe_builtins_classes :: "string set" where
  "safe_builtins_classes = {''frozenset'', ''tuple''}"

definition forbidden_message :: "string \<Rightarrow> string \<Rightarrow> string" where
  "forbidden_message module name =
     ''global '' @ [CHR 0x27] @ module @ ''.'' @ name @ [CHR 0x27] @ '' is forbidden''"

definition find_class :: "string \<Rightarrow> string \<Rightarrow> exn + ('i, 't) pyval" where
  "find_class module name =
     (if module = ''builtins'' \<and> name \<in> safe_builtins_classes
      then Inr (PyClass ''builtins'' name)
      else Inl (UnpicklingError (forbidden_message module name)))"

definition loads :: "('i, 't) pickle \<Rightarrow> exn + ('i, 't) pyval" where
  "loads string_in = Unpickler_load find_class string_in"

subsection \<open>Molecule units\<close>

text \<open>
  Modelled from the spec: the chemistry engine (rdkit) and the inherited
  \<open>MolDatRDKit._processinput\<close> are outside the source files. They are parameters here:
  \<open>processinput\<close> turns a native structural object, a string or a binary string into a
  structural object or raises; \<open>MolToSmiles\<close>, \<open>ToBinary\<close>, \<open>Mol_of_binary\<close> and
  \<open>MolToInchiKey\<close> are the engine's encoders and decoder.
\<close>

datatype ('mol, 'bin) molecule_input = Mol_object 'mol | Mol_str string | Mol_bytes 'bin

record ('mol, 'bin) rdkit_Chem =
  processinput :: "('mol, 'bin) molecule_input \<Rightarrow> bool \<Rightarrow> bool \<Rightarrow> exn + 'mol"
  MolToSmiles :: "'mol \<Rightarrow> string"
  ToBinary :: "'mol \<Rightarrow> 'bin"
  Mol_of_binary :: "'bin \<Rightarrow> 'mol"
  MolToInchiKey :: "'mol \<Rightarrow> string"

record 'bin MolDatBasicV1 =
  v1_blob :: 'bin
  v1_smiles :: string

definition MolDatBasicV1_buildfrommol ::
  "('mol, 'bin) rdkit_Chem \<Rightarrow> 'mol \<Rightarrow> 'bin MolDatBasicV1" where
  "MolDatBasicV1_buildfrommol rd in_val =
     \<lparr>v1_blob = ToBinary rd in_val, v1_smiles = MolToSmiles rd in_val\<rparr>"

definition MolDatBasicV1_init ::
  "('mol, 'bin) rdkit_Chem \<Rightarrow> ('mol, 'bin) molecule_input \<Rightarrow> bool \<Rightarrow> bool \<Rightarrow>
     exn + 'bin MolDatBasicV1" where
  "MolDatBasicV1_init rd molecule sanitize neutralize =
     (case processinput rd molecule sanitize neutralize of
        Inl e \<Rightarrow> Inl e
      | Inr rdkitmol \<Rightarrow> Inr (MolDatBasicV1_buildfrommol rd rdkitmol))"

definition MolDatBasicV1_blob :: "'bin MolDatBasicV1 \<Rightarrow> 'bin" where
  "MolDatBasicV1_blob self = v1_blob self"

definition MolDatBasicV1_rdkitmol :: "('mol, 'bin) rdkit_Chem \<Rightarrow> 'bin MolDatBasicV1 \<Rightarrow> 'mol" where
  "MolDatBasicV1_rdkitmol rd self = Mol_of_binary rd (v1_blob self)"

definition MolDatBasicV1_smiles :: "'bin MolDatBasicV1 \<Rightarrow> string" where
  "MolDatBasicV1_smiles self = v1_smiles self"

definition MolDatBasicV1_uid :: "'bin MolDatBasicV1 \<Rightarrow> string" where
  "MolDatBasicV1_uid self = v1_smiles self"

text \<open>
  The full-cache profile fills \<open>_blob\<close> on first access: the accessor returns the value
  together with the updated unit.
\<close>

record ('mol, 'bin) MolDatBasicV2 =
  v2_blob :: "'bin option"
  v2_inchikey :: "string option"
  v2_rdkitmol :: 'mol
  v2_smiles :: string

definition MolDatBasicV2_init ::
  "('mol, 'bin) rdkit_Chem \<Rightarrow> ('mol, 'bin) molecule_input \<Rightarrow> bool \<Rightarrow> bool \<Rightarrow>
     exn + ('mol, 'bin) MolDatBasicV2" where
  "MolDatBasicV2_init rd molecule sanitize neutralize =
     (case processinput rd molecule sanitize neutralize of
        Inl e \<Rightarrow> Inl e
      | Inr rdkitmol \<Rightarrow>
          Inr \<lparr>v2_blob = None, v2_inchikey = None, v2_rdkitmol = rdkitmol,
               v2_smiles = MolToSmiles rd rdkitmol\<rparr>)"

definition MolDatBasicV2_blob ::
  "('mol, 'bin) rdkit_Chem \<Rightarrow> ('mol, 'bin) MolDatBasicV2 \<Rightarrow> 'bin \<times> ('mol, 'bin) MolDatBasicV2" where
  "MolDatBasicV2_blob rd self =
     (case v2_blob self of
        None \<Rightarrow> (let b = ToBinary rd (v2_rdkitmol self) in (b, self\<lparr>v2_blob := Some b\<rparr>))
      | Some b \<Rightarrow> (b, self))"

definition MolDatBasicV2_smiles :: "('mol, 'bin) MolDatBasicV2 \<Rightarrow> string" where
  "MolDatBasicV2_smiles self = v2_smiles self"

definition MolDatBasicV2_uid :: "('mol, 'bin) MolDatBasicV2 \<Rightarrow> string" where
  "MolDatBasicV2_uid self = v2_smiles self"

definition MolDatBasicV1_inchikey :: "('mol, 'bin) rdkit_Chem \<Rightarrow> 'bin MolDatBasicV1 \<Rightarrow> string" where
  "MolDatBasicV1_inchikey rd self = MolToInchiKey rd (MolDatBasicV1_rdkitmol rd self)"

definition MolDatBasicV1_repr :: "'bin MolDatBasicV1 \<Rightarrow> string" where
  "MolDatBasicV1_repr self =
     ''MolDatBasic('' @ [CHR 0x27] @ MolDatBasicV1_smiles self @ [CHR 0x27] @ '')''"

definition MolDatBasicV2_inchikey ::
  "('mol, 'bin) rdkit_Chem \<Rightarrow> ('mol, 'bin) MolDatBasicV2 \<Rightarrow> string \<times> ('mol, 'bin) MolDatBasicV2" where
  "MolDatBasicV2_inchikey rd self =
     (case v2_inchikey self of
        None \<Rightarrow>
          (let k = MolToInchiKey rd (v2_rdkitmol self) in (k, self\<lparr>v2_inchikey := Some k\<rparr>))
      | Some k \<Rightarrow> (k, self))"

definition MolDatBasicV2_rdkitmol :: "('mol, 'bin) MolDatBasicV2 \<Rightarrow> 'mol" where
  "MolDatBasicV2_rdkitmol self = v2_rdkitmol self"

definition MolDatBasicV2_repr :: "('mol, 'bin) MolDatBasicV2 \<Rightarrow> string" where
  "MolDatBasicV2_repr self =
     ''MolDatBasic('' @ [CHR 0x22] @ MolDatBasicV2_smiles self @ [CHR 0x22] @ '')''"

subsection \<open>Operator units\<close>

text \<open>
  Modelled from the spec: the reaction-template functions of the chemistry engine, the
  network engine's molecule factory (\<open>interfaces.NetworkEngine.Mol\<close>) and the molecule
  base classes of \<open>interfaces\<close> are outside the source files. A reactant is either an
  RDKit-backed molecule unit, which exposes its structural object, or a unit of another
  kind. Formatting of strings and of the reactant sequence in messages is a parameter.
\<close>

record ('mol, 't) rdChemReactions =
  ReactionFromSmarts :: "string \<Rightarrow> exn + 't"
  ReactionToSmarts :: "'t \<Rightarrow> string"
  RunReactants :: "'t \<Rightarrow> 'mol list \<Rightarrow> exn + 'mol list list"
  Kekulize :: "'mol \<Rightarrow> exn + 'mol"

datatype ('mol, 'x) MolDatBase = MolDatRDKit 'mol | MolDatOther 'x

fun rdkitmol :: "('mol, 'x) MolDatBase \<Rightarrow> 'mol option" where
  "rdkitmol (MolDatRDKit m) = Some m"
| "rdkitmol (MolDatOther x) = None"

record ('mol, 'x) NetworkEngine =
  Mol :: "'mol \<Rightarrow> exn + ('mol, 'x) MolDatBase"

record ('mol, 'x) formatting =
  repr_str :: "string \<Rightarrow> string"
  format_reactants :: "('mol, 'x) MolDatBase list \<Rightarrow> string"

datatype ('i, 't) operator_input =
    Op_reaction 't
  | Op_str string
  | Op_bytes "('i, 't) pickle"
  | Op_other

record ('mol, 'x, 'i, 't) OpDatBasic =
  op_rdkitrxn :: 't
  op_kekulize :: bool
  op_templates :: "'mol list option"
  op_engine :: "('mol, 'x) NetworkEngine"
  op_blob :: "('i, 't) pickle option"
  op_smarts :: "string option"
  op_uid :: "string option"

text \<open>
  The assignment \<open>self._rdkitrxn, self._kekulize = loads(operator)\<close>: the decoded value
  must unpack into exactly two items. Python stores the two items unchecked; the slots
  are declared a reaction template and a flag, and units holding anything else are not
  modelled: for such a pair the model returns a \<open>TypeError\<close> where Python builds a unit.
\<close>

fun unpack_operator :: "('i, 't) pyval \<Rightarrow> exn + 't \<times> bool" where
  "unpack_operator (PyTuple [PyReaction t, PyBool k]) = Inr (t, k)"
| "unpack_operator (PyTuple [_, _]) = Inl (TypeError ''not a (template, flag) pair'')"
| "unpack_operator (PyTuple _) = Inl (ValueError ''wrong number of values to unpack'')"
| "unpack_operator (PyFrozenset _) = Inl (TypeError ''not a (template, flag) pair'')"
| "unpack_operator _ = Inl (TypeError ''cannot unpack non-iterable object'')"

text \<open>
  The constructor. In the \<open>bytes\<close> branch the source stores the payload in \<open>_blob\<close> and
  then resets \<open>_blob\<close> to \<open>None\<close> with the other caches, so every new unit has empty caches.
\<close>

definition OpDatBasic_init ::
  "('mol, 't) rdChemReactions \<Rightarrow> ('i, 't) operator_input \<Rightarrow> ('mol, 'x) NetworkEngine \<Rightarrow> bool \<Rightarrow>
     exn + ('mol, 'x, 'i, 't) OpDatBasic" where
  "OpDatBasic_init rd operator' engine kekulize_before_operation =
     (case
        (case operator' of
           Op_reaction t \<Rightarrow> Inr (t, kekulize_before_operation)
         | Op_str smarts \<Rightarrow>
             (case ReactionFromSmarts rd smarts of
                Inl e \<Rightarrow> Inl e
              | Inr t \<Rightarrow> Inr (t, kekulize_before_operation))
         | Op_bytes b \<Rightarrow> (case loads b of Inl e \<Rightarrow> Inl e | Inr v \<Rightarrow> unpack_operator v)
         | Op_other \<Rightarrow> Inl (NotImplementedError ''Invalid operator type''))
      of
        Inl e \<Rightarrow> Inl e
      | Inr (t, k) \<Rightarrow>
          Inr \<lparr>op_rdkitrxn = t, op_kekulize = k, op_templates = None, op_engine = engine,
               op_blob = None, op_smarts = None, op_uid = None\<rparr>)"

definition OpDatBasic_blob ::
  "('mol, 'x, 'i, 't) OpDatBasic \<Rightarrow> ('i, 't) pickle \<times> ('mol, 'x, 'i, 't) OpDatBasic" where
  "OpDatBasic_blob self =
     (case op_blob self of
        None \<Rightarrow>
          (let b = dumps (PyTuple [PyReaction (op_rdkitrxn self), PyBool (op_kekulize self)])
           in (b, self\<lparr>op_blob := Some b\<rparr>))
      | Some b \<Rightarrow> (b, self))"

definition OpDatBasic_uid ::
  "('mol, 't) rdChemReactions \<Rightarrow> ('mol, 'x, 'i, 't) OpDatBasic \<Rightarrow>
     string \<times> ('mol, 'x, 'i, 't) OpDatBasic" where
  "OpDatBasic_uid rd self =
     (case op_smarts self of
        None \<Rightarrow>
          (let s = ReactionToSmarts rd (op_rdkitrxn self) in (s, self\<lparr>op_smarts := Some s\<rparr>))
      | Some s \<Rightarrow> (s, self))"

definition OpDatBasic_repr ::
  "('mol, 't) rdChemReactions \<Rightarrow> ('mol, 'x) formatting \<Rightarrow> ('mol, 'x, 'i, 't) OpDatBasic \<Rightarrow> string" where
  "OpDatBasic_repr rd fmt self =
     (let sval = ''OpDatBasic('' @ repr_str fmt (fst (OpDatBasic_uid rd self)) @ '')''
      in if op_kekulize self then sval @ '',kekulize'' else sval)"

text \<open>
  \<open>__call__\<close>, in its three stages: the structural objects of the RDKit-backed reactants,
  kekulized first when the operator asks for it (before the \<open>try\<close>); the body of the
  \<open>try\<close>, which runs the template and wraps every product through the engine's factory;
  and the two \<open>except\<close> clauses.
\<close>

definition prepare_reactants ::
  "('mol, 't) rdChemReactions \<Rightarrow> ('mol, 'x, 'i, 't) OpDatBasic \<Rightarrow> ('mol, 'x) MolDatBase list \<Rightarrow>
     exn + 'mol list" where
  "prepare_reactants rd self reactants' =
     (let rdkitmols = List.map_filter rdkitmol reactants'
      in if op_kekulize self then collect (Kekulize rd) rdkitmols else Inr rdkitmols)"

definition run_operator ::
  "('mol, 't) rdChemReactions \<Rightarrow> ('mol, 'x, 'i, 't) OpDatBasic \<Rightarrow> 'mol list \<Rightarrow>
     exn + ('mol, 'x) MolDatBase list list" where
  "run_operator rd self rdkitmols =
     (case RunReactants rd (op_rdkitrxn self) rdkitmols of
        Inl e \<Rightarrow> Inl e
      | Inr results \<Rightarrow> collect (collect (Mol (op_engine self))) results)"

definition operator_error ::
  "('mol, 't) rdChemReactions \<Rightarrow> ('mol, 'x) formatting \<Rightarrow> ('mol, 'x, 'i, 't) OpDatBasic \<Rightarrow>
     ('mol, 'x) MolDatBase list \<Rightarrow> exn" where
  "operator_error rd fmt self reactants' =
     ValueError (''Error occurred when using operator '' @ OpDatBasic_repr rd fmt self @
       '' on '' @ format_reactants fmt reactants')"

definition OpDatBasic_call ::
  "('mol, 't) rdChemReactions \<Rightarrow> ('mol, 'x) formatting \<Rightarrow> ('mol, 'x, 'i, 't) OpDatBasic \<Rightarrow>
     ('mol, 'x) MolDatBase list \<Rightarrow> exn + ('mol, 'x) MolDatBase list list" where
  "OpDatBasic_call rd fmt self reactants' =
     (case prepare_reactants rd self reactants' of
        Inl e \<Rightarrow> Inl e
      | Inr rdkitmols \<Rightarrow>
          (case run_operator rd self rdkitmols of
             Inl AtomValenceException \<Rightarrow> Inl (operator_error rd fmt self reactants')
           | Inl KekulizeException \<Rightarrow> Inl (operator_error rd fmt self reactants')
           | Inl e \<Rightarrow> Inl e
           | Inr result \<Rightarrow> Inr result))"

subsection \<open>Reaction units\<close>

text \<open>
  \<open>_products\<close> and \<open>_reactants\<close> are frozensets of identifiers; \<open>sorted\<close> of a frozenset is
  \<open>sorted_list_of_set\<close>. Identifiers are totally ordered (\<open>interfaces.Identifier\<close>).
\<close>

record ('i, 't) RxnDatBasic =
  rxn_operator :: 'i
  rxn_products :: "'i set"
  rxn_reactants :: "'i set"
  rxn_blob :: "('i, 't) pickle option"
  rxn_uid :: "('i \<times> 'i list \<times> 'i list) option"

text \<open>
  Reading \<open>data[0]\<close>, \<open>frozenset(data[1])\<close> and \<open>frozenset(data[2])\<close> from the decoded value.
  Python indexes and stores without a type check. The source declares \<open>data\<close> a triple of
  an identifier and two collections of identifiers, and units holding anything else are
  not modelled: for a decoded value of another shape (an operator that is not an
  identifier, a string in place of a collection) the model returns a \<open>TypeError\<close> where
  Python builds a unit.
\<close>

fun as_Identifier :: "('i, 't) pyval \<Rightarrow> exn + 'i" where
  "as_Identifier (PyIdent i) = Inr i"
| "as_Identifier _ = Inl (TypeError ''not an Identifier'')"

definition frozenset_of :: "('i, 't) pyval \<Rightarrow> exn + 'i set" where
  "frozenset_of v =
     (case py_iter v of
        Inl e \<Rightarrow> Inl e
      | Inr xs \<Rightarrow> (case collect as_Identifier xs of Inl e \<Rightarrow> Inl e | Inr ids \<Rightarrow> Inr (set ids)))"

fun read_reaction :: "('i, 't) pyval \<Rightarrow> exn + 'i \<times> 'i set \<times> 'i set" where
  "read_reaction (PyTuple (d0 # d1 # d2 # _)) =
     (case as_Identifier d0 of
        Inl e \<Rightarrow> Inl e
      | Inr op \<Rightarrow>
          (case frozenset_of d1 of
             Inl e \<Rightarrow> Inl e
           | Inr ps \<Rightarrow> (case frozenset_of d2 of Inl e \<Rightarrow> Inl e | Inr rs \<Rightarrow> Inr (op, ps, rs))))"
| "read_reaction (PyTuple _) = Inl (IndexError ''tuple index out of range'')"
| "read_reaction _ = Inl (TypeError ''not an (operator, products, reactants) triple'')"

definition RxnDatBasic_init ::
  "'i option \<Rightarrow> 'i list option \<Rightarrow> 'i list option \<Rightarrow> ('i, 't) pickle option \<Rightarrow>
     exn + ('i, 't) RxnDatBasic" where
  "RxnDatBasic_init operator' reactants' products' reaction =
     (case reaction of
        Some b \<Rightarrow>
          (case loads b of
             Inl e \<Rightarrow> Inl e
           | Inr data \<Rightarrow>
               (case read_reaction data of
                  Inl e \<Rightarrow> Inl e
                | Inr (op, ps, rs) \<Rightarrow>
                    Inr \<lparr>rxn_operator = op, rxn_products = ps, rxn_reactants = rs,
                         rxn_blob = None, rxn_uid = None\<rparr>))
      | None \<Rightarrow>
          (case (operator', reactants', products') of
             (Some op, Some rs, Some ps) \<Rightarrow>
               Inr \<lparr>rxn_operator = op, rxn_products = set ps, rxn_reactants = set rs,
                    rxn_blob = None, rxn_uid = None\<rparr>
           | _ \<Rightarrow> Inl (TypeError ''Insufficient arguments provided'')))"

text \<open>
  The payload lists the elements of each frozenset in its iteration order, which Python
  leaves open; the model takes the sorted order.
\<close>

definition RxnDatBasic_blob ::
  "('i::linorder, 't) RxnDatBasic \<Rightarrow> ('i, 't) pickle \<times> ('i, 't) RxnDatBasic" where
  "RxnDatBasic_blob self =
     (case rxn_blob self of
        None \<Rightarrow>
          (let b = dumps (PyTuple
                     [PyIdent (rxn_operator self),
                      PyFrozenset (map PyIdent (sorted_list_of_set (rxn_products self))),
                      PyFrozenset (map PyIdent (sorted_list_of_set (rxn_reactants self)))])
           in (b, self\<lparr>rxn_blob := Some b\<rparr>))
      | Some b \<Rightarrow> (b, self))"

definition RxnDatBasic_uid ::
  "('i::linorder, 't) RxnDatBasic \<Rightarrow> ('i \<times> 'i list \<times> 'i list) \<times> ('i, 't) RxnDatBasic" where
  "RxnDatBasic_uid self =
     (case rxn_uid self of
        None \<Rightarrow>
          (let u = (rxn_operator self, sorted_list_of_set (rxn_products self),
                    sorted_list_of_set (rxn_reactants self))
           in (u, self\<lparr>rxn_uid := Some u\<rparr>))
      | Some u \<Rightarrow> (u, self))"

section \<open>Properties of the generation calculator\<close>

lemma reactant_loop_lacking:
  "\<exists>r \<in> set rs. carried (gen_key self) r = None \<Longrightarrow> reactant_loop self rs cur = Return_None"
proof (induction rs arbitrary: cur)
  case Nil
  then show ?case by simp
next
  case (Cons r rs)
  show ?case
  proof (cases "carried (gen_key self) r")
    case None
    then show ?thesis
      by (auto simp: carried_def split: option.splits)
  next
    case (Some g)
    with Cons.prems have "\<exists>r \<in> set rs. carried (gen_key self) r = None"
      by auto
    from Cons.IH [OF this] Some show ?thesis
      by (auto simp: carried_def split: option.splits)
  qed
qed

lemma reactant_loop_Some:
  "map (carried (gen_key self)) rs = map Some gs \<Longrightarrow>
   reactant_loop self rs (Some c) = Loop_done (Some (fold (\<lambda>g a. max a (g + 1)) gs c))"
proof (induction rs arbitrary: gs c)
  case Nil
  then show ?case by simp
next
  case (Cons r rs)
  then obtain g gs' where gs: "gs = g # gs'" and g: "carried (gen_key self) r = Some g"
    and rest: "map (carried (gen_key self)) rs = map Some gs'"
    by (cases gs) auto
  from g Cons.IH [OF rest] show ?case
    by (auto simp: gs carried_def split: option.splits)
qed

lemma Max_insert_max:
  "finite A \<Longrightarrow> Max (insert (max c x) A) = Max (insert (c::int) (insert x A))"
  by (cases "A = {}") (simp_all add: max.assoc)

lemma fold_max_succ:
  "fold (\<lambda>g a. max a (g + 1)) gs (c::int) = Max (insert c ((\<lambda>g. g + 1) ` set gs))"
  by (induction gs arbitrary: c) (simp_all add: Max_insert_max)

lemma Max_succ: "gs \<noteq> [] \<Longrightarrow> Max ((\<lambda>g. g + 1) ` set gs) = 1 + Max (set (gs::int list))"
  using mono_Max_commute [of "\<lambda>g. g + (1::int)" "set gs"] by (simp add: mono_def add.commute)

lemma reactant_loop_candidate:
  assumes "map (carried (gen_key self)) rs = map Some gs" and "gs \<noteq> []"
  shows "reactant_loop self rs None = Loop_done (Some (1 + Max (set gs)))"
proof -
  from assms obtain r rs' g gs' where rs: "rs = r # rs'" and gs: "gs = g # gs'"
    and g: "carried (gen_key self) r = Some g"
    and rest: "map (carried (gen_key self)) rs' = map Some gs'"
    by (cases rs; cases gs) auto
  from g have "reactant_loop self rs None = reactant_loop self rs' (Some (g + 1))"
    by (auto simp: rs carried_def split: option.splits)
  also have "\<dots> = Loop_done (Some (Max ((\<lambda>g. g + 1) ` set gs)))"
    by (simp add: reactant_loop_Some [OF rest] fold_max_succ gs)
  finally show ?thesis
    by (simp add: Max_succ [OF assms(2)])
qed

lemma reactant_loop_empty: "reactant_loop self [] None = Loop_done None"
  by simp

text \<open>
  Claim C2, as amended. When the evaluated molecule is not among the reactants, the
  reaction has at least one reactant and every reactant carries the generation key (their
  generations being \<open>gs\<close>), the candidate is \<open>1 + Max (set gs)\<close>. The candidate is returned
  exactly when \<open>prev_value\<close> is absent or at least the candidate, and the molecule's own
  metadata holds no generation or one strictly above the candidate; in every other case
  (\<open>prev_value\<close> strictly below the candidate, or a stored generation at most the
  candidate) the call returns \<open>None\<close>.
\<close>

theorem generation_candidate_accepted:
  assumes "data \<notin> set (reactants rxn)"
    and "map (carried (gen_key self)) (reactants rxn) = map Some gs"
    and "gs \<noteq> []"
  shows "GenerationCalculator_call self data rxn prev_value =
     (if (case prev_value of None \<Rightarrow> True | Some p \<Rightarrow> 1 + Max (set gs) \<le> p) \<and>
         (case carried (gen_key self) data of None \<Rightarrow> True | Some d \<Rightarrow> 1 + Max (set gs) < d)
      then Some (1 + Max (set gs)) else None)"
  using assms(1) reactant_loop_candidate [OF assms(2,3)]
  by (auto simp: GenerationCalculator_call_def carried_def split: option.splits)

text \<open>
  The end-to-end example of the specification: \<open>A\<close> has generation 0 and \<open>B\<close> generation 1;
  the reaction \<open>{A, B} \<rightarrow> {C}\<close> proposes \<open>1 + max 0 1 = 2\<close> for \<open>C\<close>, accepted against a
  previous value of 5.
\<close>

theorem generation_candidate_accepted_witness:
  "\<lparr>item = ''C'', meta = None\<rparr> \<notin> set
     [\<lparr>item = ''A'', meta = Some [''gen'' \<mapsto> 0]\<rparr>, \<lparr>item = ''B'', meta = Some [''gen'' \<mapsto> 1]\<rparr>] \<and>
   GenerationCalculator_call \<lparr>gen_key = ''gen''\<rparr> \<lparr>item = ''C'', meta = None\<rparr>
     \<lparr>operator = \<lparr>item = ''op'', meta = None\<rparr>,
      reactants =
        [\<lparr>item = ''A'', meta = Some [''gen'' \<mapsto> 0]\<rparr>, \<lparr>item = ''B'', meta = Some [''gen'' \<mapsto> 1]\<rparr>],
      products = [\<lparr>item = ''C'', meta = None\<rparr>]\<rparr>
     (Some 5) = Some 2"
  using generation_candidate_accepted
    [of "\<lparr>item = ''C'', meta = None\<rparr>"
        "\<lparr>operator = \<lparr>item = ''op'', meta = None\<rparr>,
          reactants =
            [\<lparr>item = ''A'', meta = Some [''gen'' \<mapsto> 0]\<rparr>,
             \<lparr>item = ''B'', meta = Some [''gen'' \<mapsto> 1]\<rparr>],
          products = [\<lparr>item = ''C'', meta = None\<rparr>]\<rparr>"
        "\<lparr>gen_key = ''gen''\<rparr>" "[0, 1]" "Some 5"]
  by (simp add: carried_def)

text \<open>
  Claim C2 as written fails, whichever of the two values it calls previously accepted.
  The reaction \<open>{A} \<rightarrow> {B}\<close> with \<open>A\<close> at generation 0 gives the candidate \<open>1 + 0 = 1\<close>, and
  \<open>B\<close> has no stored generation. With \<open>prev_value = 1\<close> the previous value is smaller than
  or equal to the candidate, yet the call returns the candidate and not \<open>None\<close> (the
  source compares \<open>prev_value < cur_gen\<close>). With \<open>prev_value = 0\<close> the molecule still has no
  stored value, yet the call returns \<open>None\<close> and not the candidate.
\<close>

theorem generation_prev_equal_counterexample:
  "\<lparr>item = ''B'', meta = None\<rparr> \<notin> set [\<lparr>item = ''A'', meta = Some [''gen'' \<mapsto> 0]\<rparr>] \<and>
   map (carried ''gen'') [\<lparr>item = ''A'', meta = Some [''gen'' \<mapsto> 0]\<rparr>] = map Some [0] \<and>
   (1::int) \<le> 1 + Max (set [0]) \<and>
   GenerationCalculator_call \<lparr>gen_key = ''gen''\<rparr> \<lparr>item = ''B'', meta = None\<rparr>
     \<lparr>operator = \<lparr>item = ''op'', meta = None\<rparr>,
      reactants = [\<lparr>item = ''A'', meta = Some [''gen'' \<mapsto> 0]\<rparr>],
      products = [\<lparr>item = ''B'', meta = None\<rparr>]\<rparr>
     (Some 1) = Some 1 \<and>
   carried ''gen'' \<lparr>item = ''B'', meta = None\<rparr> = None \<and>
   GenerationCalculator_call \<lparr>gen_key = ''gen''\<rparr> \<lparr>item = ''B'', meta = None\<rparr>
     \<lparr>operator = \<lparr>item = ''op'', meta = None\<rparr>,
      reactants = [\<lparr>item = ''A'', meta = Some [''gen'' \<mapsto> 0]\<rparr>],
      products = [\<lparr>item = ''B'', meta = None\<rparr>]\<rparr>
     (Some 0) = None"
  by (simp add: GenerationCalculator_call_def carried_def)

text \<open>
  Claim C3. If the evaluated molecule is itself one of the reactants, or some reactant
  has no metadata at all or has metadata without the generation key, the call returns
  \<open>None\<close>.
\<close>

theorem generation_no_update:
  assumes "data \<in> set (reactants rxn) \<or>
    (\<exists>r \<in> set (reactants rxn). meta r = None \<or> (\<exists>m. meta r = Some m \<and> gen_key self \<notin> dom m))"
  shows "GenerationCalculator_call self data rxn prev_value = None"
proof (cases "data \<in> set (reactants rxn)")
  case True
  then show ?thesis
    by (simp add: GenerationCalculator_call_def)
next
  case False
  with assms obtain r where r: "r \<in> set (reactants rxn)"
    and lacks: "meta r = None \<or> (\<exists>m. meta r = Some m \<and> gen_key self \<notin> dom m)"
    by blast
  from lacks have "carried (gen_key self) r = None"
    by (auto simp: carried_def dom_def)
  with r have "\<exists>r \<in> set (reactants rxn). carried (gen_key self) r = None"
    by blast
  from reactant_loop_lacking [OF this] show ?thesis
    by (simp add: GenerationCalculator_call_def)
qed

text \<open>
  The specification's example of an incomplete input: the reaction \<open>{A, B} \<rightarrow> {C}\<close> is
  observed while \<open>B\<close> has no generation yet.
\<close>

theorem generation_no_update_witness:
  "(\<exists>r \<in> set [\<lparr>item = ''A'', meta = Some [''gen'' \<mapsto> 0]\<rparr>, \<lparr>item = ''B'', meta = None\<rparr>].
      meta r = None \<or> (\<exists>m. meta r = Some m \<and> ''gen'' \<notin> dom m)) \<and>
   GenerationCalculator_call \<lparr>gen_key = ''gen''\<rparr> \<lparr>item = ''C'', meta = None\<rparr>
     \<lparr>operator = \<lparr>item = ''op'', meta = None\<rparr>,
      reactants = [\<lparr>item = ''A'', meta = Some [''gen'' \<mapsto> 0]\<rparr>, \<lparr>item = ''B'', meta = None\<rparr>],
      products = [\<lparr>item = ''C'', meta = None\<rparr>]\<rparr>
     None = None"
  using generation_no_update
    [of "\<lparr>item = ''C'', meta = None\<rparr>"
        "\<lparr>operator = \<lparr>item = ''op'', meta = None\<rparr>,
          reactants = [\<lparr>item = ''A'', meta = Some [''gen'' \<mapsto> 0]\<rparr>, \<lparr>item = ''B'', meta = None\<rparr>],
          products = [\<lparr>item = ''C'', meta = None\<rparr>]\<rparr>"
        "\<lparr>gen_key = ''gen''\<rparr>" None]
  by simp

text \<open>
  Claim C10. On a reaction without reactants the loop body never runs, \<open>cur_gen\<close> stays
  \<open>None\<close>, and the call returns \<open>None\<close> for every molecule snapshot and previous value.
\<close>

theorem generation_no_reactants:
  "GenerationCalculator_call self data (rxn\<lparr>reactants := []\<rparr>) prev_value = None"
  by (simp add: GenerationCalculator_call_def)

section \<open>Properties of the safe unpickler\<close>










section \<open>Properties of reaction units\<close>

lemma RxnDatBasic_init_triple:
  "RxnDatBasic_init (Some op) (Some rs) (Some ps) None =
     Inr \<lparr>rxn_operator = op, rxn_products = set ps, rxn_reactants = set rs,
          rxn_blob = None, rxn_uid = None\<rparr>"
  by (simp add: RxnDatBasic_init_def)

lemma RxnDatBasic_init_fresh:
  "RxnDatBasic_init operator' reactants' products' reaction = Inr u \<Longrightarrow> rxn_uid u = None"
  by (auto simp: RxnDatBasic_init_def split: option.splits sum.splits)

lemma RxnDatBasic_uid_fresh:
  "rxn_uid u = None \<Longrightarrow>
   fst (RxnDatBasic_uid u) =
     (rxn_operator u, sorted_list_of_set (rxn_products u), sorted_list_of_set (rxn_reactants u))"
  by (simp add: RxnDatBasic_uid_def Let_def)

text \<open>
  Claim C4. Two reaction units built from the same operator and from reactant and
  product collections that are permutations of each other have the same uid, namely
  \<open>(operator, sorted(products), sorted(reactants))\<close>; a unit with a different operator,
  however it was constructed, never has that uid.
\<close>

theorem reaction_uid_order_invariant:
  fixes op :: "'i::linorder"
  assumes "mset rs' = mset rs" and "mset ps' = mset ps"
  shows "\<exists>u u' :: ('i, 't) RxnDatBasic.
     RxnDatBasic_init (Some op) (Some rs) (Some ps) None = Inr u \<and>
     RxnDatBasic_init (Some op) (Some rs') (Some ps') None = Inr u' \<and>
     fst (RxnDatBasic_uid u) = (op, sort (remdups ps), sort (remdups rs)) \<and>
     fst (RxnDatBasic_uid u') = fst (RxnDatBasic_uid u) \<and>
     (\<forall>operator2 reactants2 products2 reaction2. \<forall>u2 :: ('i, 't) RxnDatBasic.
        RxnDatBasic_init operator2 reactants2 products2 reaction2 = Inr u2 \<longrightarrow>
        rxn_operator u2 \<noteq> op \<longrightarrow> fst (RxnDatBasic_uid u2) \<noteq> fst (RxnDatBasic_uid u))"
proof -
  from assms have sets: "set rs' = set rs" "set ps' = set ps"
    by (auto dest: mset_eq_setD)
  show ?thesis
    by (auto simp: RxnDatBasic_init_triple RxnDatBasic_uid_fresh sets
        sorted_list_of_set_sort_remdups dest!: RxnDatBasic_init_fresh)
qed

text \<open>The specification's example: reactants \<open>[a, b]\<close> against \<open>[b, a]\<close>, product \<open>[c]\<close>.\<close>

theorem reaction_uid_order_invariant_witness:
  "mset [''b'', ''a''] = mset [''a'', ''b''] \<and> mset [''c''] = mset [''c''] \<and>
   (\<exists>u u' :: (string, unit) RxnDatBasic.
     RxnDatBasic_init (Some ''op'') (Some [''a'', ''b'']) (Some [''c'']) None = Inr u \<and>
     RxnDatBasic_init (Some ''op'') (Some [''b'', ''a'']) (Some [''c'']) None = Inr u' \<and>
     fst (RxnDatBasic_uid u) = (''op'', [''c''], [''a'', ''b'']) \<and>
     fst (RxnDatBasic_uid u') = fst (RxnDatBasic_uid u))"
proof -
  have perm: "mset [''b'', ''a''] = mset [''a'', ''b'']" "mset [''c''] = mset [''c'']"
    by simp_all
  have srt: "sort (remdups [''a'', ''b'']) = [''a'', ''b'']" "sort (remdups [''c'']) = [''c'']"
    by code_simp+
  from reaction_uid_order_invariant [OF perm, of "''op''", where ?'t = unit]
  show ?thesis
    using perm srt by auto
qed

lemma collect_as_Identifier: "collect as_Identifier (map PyIdent xs) = Inr xs"
  by (induction xs) simp_all

lemma load_items_idents: "load_items fc (map (dumps \<circ> PyIdent) xs) = Inr (map PyIdent xs)"
  by (induction xs) simp_all

lemma remdups_sorted_idents:
  "remdups (map PyIdent (sorted_list_of_set A)) = map PyIdent (sorted_list_of_set A)"
  by (rule distinct_remdups_id) (simp add: distinct_map inj_on_def)

lemma frozenset_of_idents:
  "frozenset_of (PyFrozenset (map PyIdent xs)) = Inr (set xs)"
  by (simp add: frozenset_of_def collect_as_Identifier)

text \<open>
  A reaction unit does come back from its own blob: its payload holds only an
  identifier, a tuple and two frozensets, none of which needs a constructor reference.
\<close>

lemma reaction_blob_round_trip:
  fixes op :: "'i::linorder"
  assumes "RxnDatBasic_init (Some op) (Some rs) (Some ps) None = Inr (u :: ('i, 't) RxnDatBasic)"
  shows "\<exists>u'. RxnDatBasic_init None None None (Some (fst (RxnDatBasic_blob u))) = Inr u' \<and>
     fst (RxnDatBasic_uid u') = fst (RxnDatBasic_uid u) \<and> u' = u"
proof -
  from assms have u: "u = \<lparr>rxn_operator = op, rxn_products = set ps, rxn_reactants = set rs,
      rxn_blob = None, rxn_uid = None\<rparr>"
    by (simp add: RxnDatBasic_init_def)
  show ?thesis
    by (simp add: u RxnDatBasic_blob_def RxnDatBasic_init_def loads_def Let_def
        load_items_idents remdups_sorted_idents frozenset_of_idents)
qed

section \<open>Properties of molecule units\<close>

text \<open>
  Claim C5, as amended. For every input, sanitize flag and neutralize flag, the
  minimal-cache and the full-cache constructor either both raise the same exception or
  both return a unit, and then the two units have the same uid, the same canonical
  string and the same blob (also when the full-cache blob is read a second time, from
  its cache); their structural objects and inchikeys are the same whenever the engine
  decodes the unit's binary string back to its structural object.
\<close>

theorem molecule_profiles_agree:
  "(case (MolDatBasicV1_init rd molecule sanitize neutralize,
          MolDatBasicV2_init rd molecule sanitize neutralize) of
      (Inr v1, Inr v2) \<Rightarrow>
        MolDatBasicV1_uid v1 = MolDatBasicV2_uid v2 \<and>
        MolDatBasicV1_smiles v1 = MolDatBasicV2_smiles v2 \<and>
        MolDatBasicV1_blob v1 = fst (MolDatBasicV2_blob rd v2) \<and>
        MolDatBasicV1_blob v1 = fst (MolDatBasicV2_blob rd (snd (MolDatBasicV2_blob rd v2))) \<and>
        (Mol_of_binary rd (ToBinary rd (MolDatBasicV2_rdkitmol v2)) = MolDatBasicV2_rdkitmol v2 \<longrightarrow>
           MolDatBasicV1_rdkitmol rd v1 = MolDatBasicV2_rdkitmol v2 \<and>
           MolDatBasicV1_inchikey rd v1 = fst (MolDatBasicV2_inchikey rd v2) \<and>
           MolDatBasicV1_inchikey rd v1 =
             fst (MolDatBasicV2_inchikey rd (snd (MolDatBasicV2_inchikey rd v2))))
    | (Inl e1, Inl e2) \<Rightarrow> e1 = e2
    | _ \<Rightarrow> False)"
  by (simp add: MolDatBasicV1_init_def MolDatBasicV2_init_def MolDatBasicV1_buildfrommol_def
      MolDatBasicV1_uid_def MolDatBasicV2_uid_def MolDatBasicV1_smiles_def
      MolDatBasicV2_smiles_def MolDatBasicV1_blob_def MolDatBasicV2_blob_def
      MolDatBasicV1_rdkitmol_def MolDatBasicV2_rdkitmol_def MolDatBasicV1_inchikey_def
      MolDatBasicV2_inchikey_def Let_def split: sum.splits)

text \<open>
  An engine over strings: a structural object is its own canonical string and its own
  binary string, and the inchikey of \<open>m\<close> is \<open>m\<close> reversed.
\<close>

theorem molecule_profiles_agree_witness:
  "Mol_of_binary
     \<lparr>processinput = (\<lambda>molecule sanitize neutralize.
        case molecule of Mol_object m \<Rightarrow> Inr m | Mol_str s \<Rightarrow> Inr s | Mol_bytes b \<Rightarrow> Inr b),
      MolToSmiles = (\<lambda>m. m), ToBinary = (\<lambda>m. m), Mol_of_binary = (\<lambda>b. b),
      MolToInchiKey = rev\<rparr> (''CCO'' :: string) = ''CCO'' \<and>
   MolDatBasicV1_rdkitmol
     \<lparr>processinput = (\<lambda>molecule sanitize neutralize.
        case molecule of Mol_object m \<Rightarrow> Inr m | Mol_str s \<Rightarrow> Inr s | Mol_bytes b \<Rightarrow> Inr b),
      MolToSmiles = (\<lambda>m. m), ToBinary = (\<lambda>m. m), Mol_of_binary = (\<lambda>b. b),
      MolToInchiKey = rev\<rparr>
     \<lparr>v1_blob = ''CCO'', v1_smiles = ''CCO''\<rparr> =
   MolDatBasicV2_rdkitmol
     \<lparr>v2_blob = None, v2_inchikey = None, v2_rdkitmol = ''CCO'', v2_smiles = ''CCO''\<rparr> \<and>
   MolDatBasicV1_inchikey
     \<lparr>processinput = (\<lambda>molecule sanitize neutralize.
        case molecule of Mol_object m \<Rightarrow> Inr m | Mol_str s \<Rightarrow> Inr s | Mol_bytes b \<Rightarrow> Inr b),
      MolToSmiles = (\<lambda>m. m), ToBinary = (\<lambda>m. m), Mol_of_binary = (\<lambda>b. b),
      MolToInchiKey = rev\<rparr>
     \<lparr>v1_blob = ''CCO'', v1_smiles = ''CCO''\<rparr> = ''OCC''"
proof -
  let ?rd = "\<lparr>processinput = (\<lambda>molecule sanitize neutralize.
        case molecule of Mol_object m \<Rightarrow> Inr m | Mol_str s \<Rightarrow> Inr s | Mol_bytes b \<Rightarrow> Inr b),
      MolToSmiles = (\<lambda>m. m), ToBinary = (\<lambda>m. m), Mol_of_binary = (\<lambda>b. b),
      MolToInchiKey = rev\<rparr> :: (string, string) rdkit_Chem"
  have v1: "MolDatBasicV1_init ?rd (Mol_str ''CCO'') True False =
      Inr \<lparr>v1_blob = ''CCO'', v1_smiles = ''CCO''\<rparr>"
    by (simp add: MolDatBasicV1_init_def MolDatBasicV1_buildfrommol_def)
  have v2: "MolDatBasicV2_init ?rd (Mol_str ''CCO'') True False =
      Inr \<lparr>v2_blob = None, v2_inchikey = None, v2_rdkitmol = ''CCO'', v2_smiles = ''CCO''\<rparr>"
    by (simp add: MolDatBasicV2_init_def)
  have key: "fst (MolDatBasicV2_inchikey ?rd
      \<lparr>v2_blob = None, v2_inchikey = None, v2_rdkitmol = ''CCO'', v2_smiles = ''CCO''\<rparr>) =
      ''OCC''"
    by (simp add: MolDatBasicV2_inchikey_def Let_def)
  from molecule_profiles_agree [of ?rd "Mol_str ''CCO''" True False]
  show ?thesis
    by (simp add: v1 v2 key MolDatBasicV2_rdkitmol_def)
qed

text \<open>
  Claim C5 as written fails: the two profiles are not indistinguishable from outside.
  Built from the same input, their \<open>__repr__\<close> texts differ in the quote character.
\<close>

theorem molecule_repr_differs_counterexample:
  "MolDatBasicV1_init
     \<lparr>processinput = (\<lambda>molecule sanitize neutralize.
        case molecule of Mol_object m \<Rightarrow> Inr m | Mol_str s \<Rightarrow> Inr s | Mol_bytes b \<Rightarrow> Inr b),
      MolToSmiles = (\<lambda>m. m), ToBinary = (\<lambda>m. m), Mol_of_binary = (\<lambda>b. b),
      MolToInchiKey = rev\<rparr>
     (Mol_str ''CCO'') True False = Inr \<lparr>v1_blob = ''CCO'', v1_smiles = ''CCO''\<rparr> \<and>
   MolDatBasicV2_init
     \<lparr>processinput = (\<lambda>molecule sanitize neutralize.
        case molecule of Mol_object m \<Rightarrow> Inr m | Mol_str s \<Rightarrow> Inr s | Mol_bytes b \<Rightarrow> Inr b),
      MolToSmiles = (\<lambda>m. m), ToBinary = (\<lambda>m. m), Mol_of_binary = (\<lambda>b. b),
      MolToInchiKey = rev\<rparr>
     (Mol_str ''CCO'') True False =
     Inr \<lparr>v2_blob = None, v2_inchikey = None, v2_rdkitmol = ''CCO'', v2_smiles = ''CCO''\<rparr> \<and>
   MolDatBasicV1_repr \<lparr>v1_blob = ''CCO'', v1_smiles = ''CCO''\<rparr> = ''MolDatBasic('CCO')'' \<and>
   MolDatBasicV2_repr
     \<lparr>v2_blob = None, v2_inchikey = None, v2_rdkitmol = ''CCO'', v2_smiles = ''CCO''\<rparr> \<noteq>
   MolDatBasicV1_repr \<lparr>v1_blob = (''CCO'' :: string), v1_smiles = ''CCO''\<rparr>"
  by (simp add: MolDatBasicV1_init_def MolDatBasicV1_buildfrommol_def MolDatBasicV2_init_def
      MolDatBasicV1_repr_def MolDatBasicV2_repr_def MolDatBasicV1_smiles_def
      MolDatBasicV2_smiles_def)

section \<open>Properties of operator units\<close>

text \<open>The uid of an operator unit is the canonical string of its template, whatever the flag.\<close>

lemma operator_uid_ignores_flag:
  "OpDatBasic_init rd (Op_reaction t) engine k = Inr u \<Longrightarrow>
   fst (OpDatBasic_uid rd u) = ReactionToSmarts rd t"
  by (auto simp: OpDatBasic_init_def OpDatBasic_uid_def Let_def)

text \<open>
  Claim C6, on operator units. The blob of an operator unit pickles the template object,
  an instance of \<open>rdkit.Chem.rdChemReactions.ChemicalReaction\<close>; the constructor decodes a
  \<open>bytes\<close> argument with the safe \<open>loads\<close>, which refuses that class. Building an operator
  unit from the blob of any operator unit raises \<open>UnpicklingError\<close>: no unit, and no uid,
  comes back.
\<close>

theorem operator_blob_rejected:
  "\<exists>u. OpDatBasic_init rd (Op_reaction t) engine k = Inr u \<and>
     OpDatBasic_init rd (Op_bytes (fst (OpDatBasic_blob u))) engine k' =
       Inl (UnpicklingError ''global 'rdkit.Chem.rdChemReactions.ChemicalReaction' is forbidden'')"
  by (simp add: OpDatBasic_init_def OpDatBasic_blob_def Let_def loads_def find_class_def
      forbidden_message_def safe_builtins_classes_def)

text \<open>
  Claim C8, on the flag. The blob of a unit built with the kekulize flag set does record
  the flag, but the constructor cannot read it back: decoding the blob raises before the
  pair \<open>(template, flag)\<close> is unpacked.
\<close>

theorem operator_flag_not_restored:
  "\<exists>u. OpDatBasic_init rd (Op_reaction t) engine True = Inr u \<and> op_kekulize u \<and>
     fst (OpDatBasic_blob u) = dumps (PyTuple [PyReaction t, PyBool True]) \<and>
     (\<exists>e. OpDatBasic_init rd (Op_bytes (fst (OpDatBasic_blob u))) engine False = Inl e)"
  by (simp add: OpDatBasic_init_def OpDatBasic_blob_def Let_def loads_def find_class_def
      forbidden_message_def safe_builtins_classes_def)

text \<open>
  When the operator asks for kekulization, the reactants are kekulized before the \<open>try\<close>
  statement is entered, so an exception raised there reaches the caller as it is.
\<close>

lemma prepare_failure_escapes:
  "prepare_reactants rd self reactants' = Inl e \<Longrightarrow> OpDatBasic_call rd fmt self reactants' = Inl e"
  by (simp add: OpDatBasic_call_def)

text \<open>
  Claim C7, as amended. Once the reactants are prepared, an \<open>AtomValenceException\<close> or a
  \<open>KekulizeException\<close> raised while the template runs or while its products are wrapped
  is re-raised as a \<open>ValueError\<close> whose message names the operator and the reactants, and
  neither of the two ever leaves the call as it is; an exception of any other type
  raised there leaves the call unchanged, and a result is returned unchanged.
\<close>

theorem operator_call_errors:
  assumes "prepare_reactants rd self reactants' = Inr rdkitmols"
  shows
  "(run_operator rd self rdkitmols = Inl AtomValenceException \<or>
    run_operator rd self rdkitmols = Inl KekulizeException \<longrightarrow>
      OpDatBasic_call rd fmt self reactants' =
        Inl (ValueError (''Error occurred when using operator '' @ OpDatBasic_repr rd fmt self @
          '' on '' @ format_reactants fmt reactants'))) \<and>
   (\<forall>e. run_operator rd self rdkitmols = Inl e \<and> e \<noteq> AtomValenceException \<and>
        e \<noteq> KekulizeException \<longrightarrow> OpDatBasic_call rd fmt self reactants' = Inl e) \<and>
   (\<forall>result. run_operator rd self rdkitmols = Inr result \<longrightarrow>
        OpDatBasic_call rd fmt self reactants' = Inr result) \<and>
   OpDatBasic_call rd fmt self reactants' \<noteq> Inl AtomValenceException \<and>
   OpDatBasic_call rd fmt self reactants' \<noteq> Inl KekulizeException"
  using assms
  by (auto simp: OpDatBasic_call_def operator_error_def split: sum.splits exn.splits)

text \<open>
  An engine whose template application raises \<open>AtomValenceException\<close>: the call raises the
  \<open>ValueError\<close> with the operator and the reactants in its message.
\<close>

theorem operator_call_errors_witness:
  "prepare_reactants
     \<lparr>ReactionFromSmarts = Inr, ReactionToSmarts = (\<lambda>t. t),
      RunReactants = (\<lambda>t ms. Inl AtomValenceException), Kekulize = Inr\<rparr>
     (\<lparr>op_rdkitrxn = ''[C:1]>>[C:1]=O'', op_kekulize = False, op_templates = None,
       op_engine = \<lparr>Mol = (\<lambda>m. Inr (MolDatRDKit m))\<rparr>,
       op_blob = None, op_smarts = None, op_uid = None\<rparr>
        :: (string, unit, string, string) OpDatBasic)
     [MolDatRDKit ''C''] = Inr [''C''] \<and>
   OpDatBasic_call
     \<lparr>ReactionFromSmarts = Inr, ReactionToSmarts = (\<lambda>t. t),
      RunReactants = (\<lambda>t ms. Inl AtomValenceException), Kekulize = Inr\<rparr>
     \<lparr>repr_str = (\<lambda>s. s), format_reactants = (\<lambda>ms. ''[C]'')\<rparr>
     (\<lparr>op_rdkitrxn = ''[C:1]>>[C:1]=O'', op_kekulize = False, op_templates = None,
       op_engine = \<lparr>Mol = (\<lambda>m. Inr (MolDatRDKit m))\<rparr>,
       op_blob = None, op_smarts = None, op_uid = None\<rparr>
        :: (string, unit, string, string) OpDatBasic)
     [MolDatRDKit ''C'']
   = Inl (ValueError ''Error occurred when using operator OpDatBasic([C:1]>>[C:1]=O) on [C]'')"
proof -
  let ?rd = "\<lparr>ReactionFromSmarts = Inr, ReactionToSmarts = (\<lambda>t. t),
      RunReactants = (\<lambda>t ms. Inl AtomValenceException), Kekulize = Inr\<rparr>
      :: (string, string) rdChemReactions"
  let ?self = "\<lparr>op_rdkitrxn = ''[C:1]>>[C:1]=O'', op_kekulize = False, op_templates = None,
       op_engine = \<lparr>Mol = (\<lambda>m. Inr (MolDatRDKit m))\<rparr>,
       op_blob = None, op_smarts = None, op_uid = None\<rparr>
        :: (string, unit, string, string) OpDatBasic"
  have prep: "prepare_reactants ?rd ?self [MolDatRDKit ''C''] = Inr [''C'']"
    by (simp add: prepare_reactants_def)
  from operator_call_errors [OF prep,
      of "\<lparr>repr_str = (\<lambda>s. s), format_reactants = (\<lambda>ms. ''[C]'')\<rparr>"]
  show ?thesis
    using prep
    by (simp add: run_operator_def OpDatBasic_repr_def OpDatBasic_uid_def Let_def)
qed

text \<open>
  Claim C7 as written fails: the engine's factory raises an exception of a third type
  while wrapping a product (here the engine's \<open>AtomKekulizeException\<close>, which is neither
  of the two caught types), and that exception leaves the call as it is.
\<close>

theorem operator_call_other_exception_counterexample:
  "OpDatBasic_call
     \<lparr>ReactionFromSmarts = Inr, ReactionToSmarts = (\<lambda>t. t),
      RunReactants = (\<lambda>t ms. Inr [ms]), Kekulize = Inr\<rparr>
     \<lparr>repr_str = (\<lambda>s. s), format_reactants = (\<lambda>ms. '''')\<rparr>
     (\<lparr>op_rdkitrxn = ''[C:1]>>[c:1]'', op_kekulize = False, op_templates = None,
       op_engine = \<lparr>Mol = (\<lambda>m. Inl (OtherException ''AtomKekulizeException''))\<rparr>,
       op_blob = None, op_smarts = None, op_uid = None\<rparr>
        :: (string, unit, string, string) OpDatBasic)
     [MolDatRDKit ''C'']
   = Inl (OtherException ''AtomKekulizeException'')"
  by (simp add: OpDatBasic_call_def prepare_reactants_def run_operator_def)

section \<open>Construction of reaction units\<close>

text \<open>
  Claim C9, as amended. At least one form must be supplied: without a blob and without a
  complete triple, construction raises \<open>TypeError\<close> (insufficient arguments); without a
  blob and with a complete triple it succeeds; and when a blob is supplied the unit is
  built from the blob alone, whatever the triple arguments are.
\<close>

theorem reaction_init_arguments:
  fixes reaction :: "('i, 't) pickle option"
  shows
  "(reaction = None \<and> (operator' = None \<or> reactants' = None \<or> products' = None) \<longrightarrow>
      RxnDatBasic_init operator' reactants' products' reaction =
        Inl (TypeError ''Insufficient arguments provided'')) \<and>
   (reaction = None \<and> operator' \<noteq> None \<and> reactants' \<noteq> None \<and> products' \<noteq> None \<longrightarrow>
      (\<exists>u. RxnDatBasic_init operator' reactants' products' reaction = Inr u)) \<and>
   (reaction \<noteq> None \<longrightarrow>
      RxnDatBasic_init operator' reactants' products' reaction =
        RxnDatBasic_init None None None reaction)"
  by (auto simp: RxnDatBasic_init_def split: option.splits)

theorem reaction_init_arguments_witness:
  "(RxnDatBasic_init (Some ''op'') None (Some [''b'']) None :: exn + (string, unit) RxnDatBasic) =
     Inl (TypeError ''Insufficient arguments provided'') \<and>
   (RxnDatBasic_init None None None None :: exn + (string, unit) RxnDatBasic) =
     Inl (TypeError ''Insufficient arguments provided'') \<and>
   (\<exists>u :: (string, unit) RxnDatBasic.
      RxnDatBasic_init (Some ''op'') (Some [''a'']) (Some [''b'']) None = Inr u)"
  using reaction_init_arguments [of "None :: (string, unit) pickle option" "Some ''op''" None "Some [''b'']"]
    reaction_init_arguments [of "None :: (string, unit) pickle option" None None None]
    reaction_init_arguments [of "None :: (string, unit) pickle option" "Some ''op''" "Some [''a'']" "Some [''b'']"]
  by simp

text \<open>
  Claim C9 as written fails: with both a complete triple and a blob supplied, not
  exactly one form, construction raises nothing and returns the unit the blob describes.
\<close>

theorem reaction_init_both_forms_counterexample:
  "RxnDatBasic_init (Some ''op1'') (Some [''a'']) (Some [''b''])
     (Some (P_tuple [P_ident ''op2'', P_frozenset [P_ident ''y''], P_frozenset [P_ident ''x'']]))
   = Inr (\<lparr>rxn_operator = ''op2'', rxn_products = {''y''}, rxn_reactants = {''x''},
          rxn_blob = None, rxn_uid = None\<rparr> :: (string, unit) RxnDatBasic)"
  by (simp add: RxnDatBasic_init_def loads_def frozenset_of_def)

end
